theory Spec2Isabelle
  imports Complex_Main "HOL-Library.Char_ord" "HOL-Library.List_Lexorder" "HOL-Library.Sublist"
begin

section \<open>Strings and Python helpers\<close>

text \<open>
  Python strings are modelled as \<^typ>\<open>string\<close> over the ASCII range: \<open>str.lower\<close> maps
  \<open>A..Z\<close> to \<open>a..z\<close>, \<open>str.strip\<close> removes leading and trailing ASCII whitespace, and
  \<open>sub in s\<close> is the contiguous-substring test.
\<close>

definition lower_char :: "char \<Rightarrow> char" where
  "lower_char c = (if CHR ''A'' \<le> c \<and> c \<le> CHR ''Z'' then char_of (of_char c + (32::nat)) else c)"

definition lower :: "string \<Rightarrow> string" where
  "lower s = map lower_char s"

definition is_space :: "char \<Rightarrow> bool" where
  "is_space c = (c = CHR '' '' \<or> (CHR 0x09 \<le> c \<and> c \<le> CHR 0x0D) \<or> (CHR 0x1C \<le> c \<and> c \<le> CHR 0x1F))"

definition strip :: "string \<Rightarrow> string" where
  "strip s = rev (dropWhile is_space (rev (dropWhile is_space s)))"

fun str_in :: "string \<Rightarrow> string \<Rightarrow> bool" where
  "str_in sub [] = (sub = [])"
| "str_in sub (c # cs) = (prefix sub (c # cs) \<or> str_in sub cs)"

text \<open>\<open>any(term in s for term in terms)\<close>\<close>

definition any_in :: "string list \<Rightarrow> string \<Rightarrow> bool" where
  "any_in terms s = list_ex (\<lambda>t. str_in t s) terms"

text \<open>\<open>str(n)\<close> for the non-negative integers that the rating code formats.\<close>

definition digit_char :: "nat \<Rightarrow> char" where
  "digit_char d = char_of (48 + d)"

fun str_nat :: "nat \<Rightarrow> string" where
  "str_nat n = (if n < 10 then [digit_char n] else str_nat (n div 10) @ [digit_char (n mod 10)])"

definition str_int :: "int \<Rightarrow> string" where
  "str_int i = (if i < 0 then CHR ''-'' # str_nat (nat (- i)) else str_nat (nat i))"

text \<open>The exceptions the modelled functions can raise.\<close>

datatype py_error = TypeError | KeyError

section \<open>Reference Store (\<open>core/vac_data.py\<close>)\<close>

text \<open>
  A reference condition as \<open>_build_indexes\<close> stores it. The pass-through payloads
  \<open>rating_criteria\<close> and \<open>assessment_notes\<close> are read by no modelled function and are
  left out.
\<close>

record condition =
  c_id :: string
  c_name :: string
  c_chapter :: string
  c_description :: string
  c_symptoms :: "string list"
  c_keywords :: "string list"

record index_data =
  ix_condition :: condition
  search_terms :: "string list"
  primary_name :: string

text \<open>
  Dictionaries keep insertion order, and \<open>find_condition\<close> depends on the scan order, so
  \<open>conditions_index\<close> and \<open>search_index\<close> are association lists.
\<close>

record vac_data_manager =
  conditions_index :: "(string \<times> condition) list"
  search_index :: "(string \<times> index_data) list"

text \<open>
  The \<open>fuzzywuzzy\<close> scoring functions are an external library; the model takes them as
  parameters.
\<close>

record fuzz =
  ratio :: "string \<Rightarrow> string \<Rightarrow> int"
  partial_ratio :: "string \<Rightarrow> string \<Rightarrow> int"
  token_sort_ratio :: "string \<Rightarrow> string \<Rightarrow> int"

definition cleaned_terms :: "condition \<Rightarrow> string list" where
  "cleaned_terms condition =
     map (\<lambda>t. strip (lower t))
       (filter (\<lambda>t. t \<noteq> [])
         ([c_name condition, c_description condition] @ c_keywords condition @ c_symptoms condition))"

definition build_search_index :: "(string \<times> condition) list \<Rightarrow> (string \<times> index_data) list" where
  "build_search_index cidx =
     map (\<lambda>(condition_id, condition).
            (condition_id,
             \<lparr>ix_condition = condition,
              search_terms = cleaned_terms condition,
              primary_name = lower (c_name condition)\<rparr>)) cidx"

definition make_manager :: "(string \<times> condition) list \<Rightarrow> vac_data_manager" where
  "make_manager cidx = \<lparr>conditions_index = cidx, search_index = build_search_index cidx\<rparr>"

text \<open>
  The inner loop of \<open>find_condition\<close> over one condition's terms. \<open>Inl c\<close> is the early
  \<open>return\<close> on an exact match; \<open>Inr (best_match, best_score)\<close> is the loop state.
\<close>

fun scan_terms ::
  "fuzz \<Rightarrow> string \<Rightarrow> condition \<Rightarrow> string list \<Rightarrow> condition option \<times> int
     \<Rightarrow> condition + condition option \<times> int" where
  "scan_terms fz q cond [] st = Inr st"
| "scan_terms fz q cond (t # ts) (best_match, best_score) =
     (if t = [] then scan_terms fz q cond ts (best_match, best_score)
      else if q = t then Inl cond
      else
        let score = max (max (ratio fz q t) (partial_ratio fz q t)) (token_sort_ratio fz q t)
        in if score > best_score then scan_terms fz q cond ts (Some cond, score)
           else scan_terms fz q cond ts (best_match, best_score))"

fun scan_index ::
  "fuzz \<Rightarrow> string \<Rightarrow> (string \<times> index_data) list \<Rightarrow> condition option \<times> int
     \<Rightarrow> condition + condition option \<times> int" where
  "scan_index fz q [] st = Inr st"
| "scan_index fz q ((condition_id, ix) # rest) (best_match, best_score) =
     (let primary_score = ratio fz q (primary_name ix);
          st1 = (if primary_score > best_score then (Some (ix_condition ix), primary_score)
                 else (best_match, best_score))
      in case scan_terms fz q (ix_condition ix) (search_terms ix) st1 of
           Inl c \<Rightarrow> Inl c
         | Inr st2 \<Rightarrow> scan_index fz q rest st2)"

text \<open>
  \<open>find_condition\<close>. When the best score reaches the threshold although no condition
  was ever recorded (possible only for a threshold \<open>\<le> 0\<close>), the log line subscripts
  \<open>None\<close> and Python raises \<open>TypeError\<close>.
\<close>

definition find_condition ::
  "fuzz \<Rightarrow> vac_data_manager \<Rightarrow> string \<Rightarrow> int \<Rightarrow> py_error + condition option" where
  "find_condition fz dm condition_name threshold =
     (if condition_name = [] \<or> search_index dm = [] then Inr None
      else
        case scan_index fz (strip (lower condition_name)) (search_index dm) (None, 0) of
          Inl c \<Rightarrow> Inr (Some c)
        | Inr (best_match, best_score) \<Rightarrow>
            if best_score \<ge> threshold then
              (case best_match of None \<Rightarrow> Inl TypeError | Some c \<Rightarrow> Inr (Some c))
            else Inr None)"

text \<open>
  \<open>search_conditions\<close>. The relevance of a condition is the best partial-similarity score
  over its name, its description and its symptoms.
\<close>

record search_result =
  sr_condition :: condition
  relevance_score :: int

definition relevance :: "fuzz \<Rightarrow> string \<Rightarrow> condition \<Rightarrow> int" where
  "relevance fz query_lower condition =
     (let name_score = partial_ratio fz query_lower (lower (c_name condition));
          desc_score = partial_ratio fz query_lower (lower (c_description condition));
          symptom_scores = map (\<lambda>symptom. partial_ratio fz query_lower (lower symptom)) (c_symptoms condition);
          max_symptom_score =
            (if symptom_scores = [] then 0 else fold max (tl symptom_scores) (hd symptom_scores))
      in max (max name_score desc_score) max_symptom_score)"

text \<open>\<open>xs[:limit]\<close>: a negative limit drops that many elements from the end.\<close>

definition slice_to :: "int \<Rightarrow> 'a list \<Rightarrow> 'a list" where
  "slice_to limit xs =
     (if limit \<ge> 0 then take (nat limit) xs else take (length xs - nat (- limit)) xs)"

definition chapter_ok :: "string option \<Rightarrow> condition \<Rightarrow> bool" where
  "chapter_ok chapter condition =
     (case chapter of
        None \<Rightarrow> True
      | Some ch \<Rightarrow> \<not> (ch \<noteq> [] \<and> c_chapter condition \<noteq> ch))"

text \<open>
  The body of \<open>search_conditions\<close> with its inclusion threshold, the literal \<open>50\<close> of the
  source, as the first argument. \<open>list.sort(key, reverse=True)\<close> is stable, as is
  \<^const>\<open>sort_key\<close> on the negated score.
\<close>

definition search_conditions_at ::
  "int \<Rightarrow> fuzz \<Rightarrow> vac_data_manager \<Rightarrow> string \<Rightarrow> string option \<Rightarrow> int \<Rightarrow> search_result list" where
  "search_conditions_at inclusion fz dm query chapter limit =
     (if query = [] then []
      else
        let query_lower = strip (lower query);
            scored = map (\<lambda>condition. \<lparr>sr_condition = condition,
                                        relevance_score = relevance fz query_lower condition\<rparr>)
                       (filter (chapter_ok chapter) (map snd (conditions_index dm)));
            results = filter (\<lambda>r. relevance_score r > inclusion) scored
        in slice_to limit (sort_key (\<lambda>r. - relevance_score r) results))"

definition search_conditions ::
  "fuzz \<Rightarrow> vac_data_manager \<Rightarrow> string \<Rightarrow> string option \<Rightarrow> int \<Rightarrow> search_result list" where
  "search_conditions = search_conditions_at 50"

text \<open>\<open>calculate_basic_rating\<close>. Keys that a result dictionary lacks are \<open>None\<close>.\<close>

record rating_result =
  rr_condition :: string
  rr_condition_id :: "string option"
  rr_chapter :: "string option"
  rr_found :: bool
  rr_rating :: int
  rr_base_rating :: "int option"
  rr_symptom_adjustment :: "int option"
  rr_rationale :: string
  rr_symptoms_considered :: "string list option"

definition severity_ratings :: "(string \<times> int) list" where
  "severity_ratings =
     [(''minimal'', 5), (''mild'', 10), (''moderate'', 30), (''moderately_severe'', 50),
      (''severe'', 70), (''very_severe'', 90), (''total'', 100)]"

definition not_found_text :: "string \<Rightarrow> string" where
  "not_found_text condition_name = ''Condition '' @ [CHR 0x27] @ condition_name @ [CHR 0x27] @ '' not found in VAC ToD 2019''"

definition calculate_basic_rating ::
  "fuzz \<Rightarrow> vac_data_manager \<Rightarrow> string \<Rightarrow> string \<Rightarrow> string list \<Rightarrow> py_error + rating_result" where
  "calculate_basic_rating fz dm condition_name severity symptoms =
     (case find_condition fz dm condition_name 70 of
        Inl e \<Rightarrow> Inl e
      | Inr None \<Rightarrow>
          Inr \<lparr>rr_condition = condition_name, rr_condition_id = None, rr_chapter = None,
               rr_found = False, rr_rating = 0, rr_base_rating = None,
               rr_symptom_adjustment = None, rr_rationale = not_found_text condition_name,
               rr_symptoms_considered = None\<rparr>
      | Inr (Some condition) \<Rightarrow>
          let base_rating = (case map_of severity_ratings (lower severity) of
                               Some b \<Rightarrow> b | None \<Rightarrow> 20);
              symptom_adjustment = min (int (length symptoms) * 2) 20;
              final_rating = min (base_rating + symptom_adjustment) 100
          in Inr \<lparr>rr_condition = c_name condition, rr_condition_id = Some (c_id condition),
                  rr_chapter = Some (c_chapter condition), rr_found = True,
                  rr_rating = final_rating, rr_base_rating = Some base_rating,
                  rr_symptom_adjustment = Some symptom_adjustment,
                  rr_rationale =
                    ''Base rating '' @ str_int base_rating @ ''% for '' @ severity
                    @ '' severity, adjusted +'' @ str_int symptom_adjustment @ ''% for ''
                    @ str_nat (length symptoms) @ '' symptoms'',
                  rr_symptoms_considered = Some symptoms\<rparr>)"

section \<open>Rating engine (\<open>rating/vac_canada.py\<close>)\<close>

record case_condition =
  cc_name :: string
  cc_symptoms :: "string list"
  cc_severity :: string

record evidence =
  ev_content :: string
  ev_source :: string

record evidence_support =
  evidence_count :: nat
  relevant_sources :: "string list"
  quality_assessment :: string
  adequacy_for_rating :: bool
  es_recommendations :: "string list"

definition get_evidence_recommendations :: "string \<Rightarrow> string list" where
  "get_evidence_recommendations quality =
     (case map_of
        [(''insufficient'', [''Obtain comprehensive medical documentation'',
                             ''Request current medical examinations'',
                             ''Gather service medical records'']),
         (''limited'', [''Obtain additional supporting medical evidence'',
                        ''Consider independent medical examination'',
                        ''Document current symptom severity'']),
         (''adequate'', [''Evidence supports assessment'', ''Consider periodic review'']),
         (''comprehensive'', [''Strong medical evidence foundation'',
                              ''Evidence fully supports assessment''])] quality of
        Some rs \<Rightarrow> rs
      | None \<Rightarrow> [])"

definition evaluate_medical_evidence :: "string \<Rightarrow> evidence list \<Rightarrow> evidence_support" where
  "evaluate_medical_evidence condition_name medical_evidence =
     (let relevant_evidence =
            filter (\<lambda>e. str_in (lower condition_name) (lower (ev_content e))) medical_evidence;
          n = length relevant_evidence;
          evidence_quality =
            (if n \<ge> 3 then ''comprehensive''
             else if n \<ge> 2 then ''adequate''
             else if n = 1 then ''limited''
             else ''insufficient'')
      in \<lparr>evidence_count = n,
          relevant_sources = map ev_source relevant_evidence,
          quality_assessment = evidence_quality,
          adequacy_for_rating = (evidence_quality \<in> set [''adequate'', ''comprehensive'']),
          es_recommendations = get_evidence_recommendations evidence_quality\<rparr>)"

definition get_criteria_met :: "condition \<Rightarrow> string list \<Rightarrow> string list" where
  "get_criteria_met condition symptoms =
     (let criteria_met = [''condition_identified'', ''tod_match_found''];
          criteria_met = (if symptoms \<noteq> [] then criteria_met @ [''symptoms_documented'']
                          else criteria_met);
          tod_symptoms = c_symptoms condition;
          matching_symptoms =
            filter (\<lambda>symptom. list_ex (\<lambda>tod_symptom.
                       str_in (lower symptom) (lower tod_symptom)
                       \<or> str_in (lower tod_symptom) (lower symptom)) tod_symptoms) symptoms
      in if tod_symptoms \<noteq> [] \<and> symptoms \<noteq> [] \<and> matching_symptoms \<noteq> []
         then criteria_met @ [''symptoms_match_tod''] else criteria_met)"

text \<open>
  The dictionary \<open>_assess_condition\<close> returns; it has three shapes (not found, rated,
  failed), and a key that a shape lacks is \<open>None\<close>.
\<close>

record assessment =
  condition :: string
  tod_condition_id :: "string option"
  tod_chapter :: "string option"
  tod_found :: bool
  rating :: int
  rationale :: "string option"
  rating_rationale :: "string option"
  symptoms_matched :: "string list option"
  assessment_criteria_met :: "string list option"
  medical_evidence_support :: "evidence_support option"
  base_rating :: "int option"
  symptom_adjustment :: "int option"
  error :: "py_error option"

text \<open>The \<open>except Exception\<close> branch of \<open>_assess_condition\<close>.\<close>

definition failed_assessment :: "case_condition \<Rightarrow> py_error \<Rightarrow> assessment" where
  "failed_assessment cond e =
     \<lparr>condition = cc_name cond, tod_condition_id = None, tod_chapter = None, tod_found = False,
      rating = 0, rationale = None, rating_rationale = None, symptoms_matched = None,
      assessment_criteria_met = None, medical_evidence_support = None, base_rating = None,
      symptom_adjustment = None, error = Some e\<rparr>"

definition assess_condition ::
  "fuzz \<Rightarrow> vac_data_manager \<Rightarrow> case_condition \<Rightarrow> evidence list \<Rightarrow> assessment" where
  "assess_condition fz dm cond medical_evidence =
     (let condition_name = cc_name cond;
          symptoms = cc_symptoms cond;
          severity = cc_severity cond
      in case find_condition fz dm condition_name 70 of
           Inl e \<Rightarrow> failed_assessment cond e
         | Inr None \<Rightarrow>
             \<lparr>condition = condition_name, tod_condition_id = None, tod_chapter = Some ''unknown'',
              tod_found = False, rating = 0,
              rationale = Some (not_found_text condition_name), rating_rationale = None,
              symptoms_matched = None, assessment_criteria_met = None,
              medical_evidence_support = None, base_rating = None,
              symptom_adjustment = None, error = None\<rparr>
         | Inr (Some tod_condition) \<Rightarrow>
             (case calculate_basic_rating fz dm condition_name severity symptoms of
                Inl e \<Rightarrow> failed_assessment cond e
              | Inr rating_result \<Rightarrow>
                  (case rr_symptoms_considered rating_result of
                     None \<Rightarrow> failed_assessment cond KeyError
                   | Some considered \<Rightarrow>
                       \<lparr>condition = condition_name,
                        tod_condition_id = Some (c_id tod_condition),
                        tod_chapter = Some (c_chapter tod_condition),
                        tod_found = True,
                        rating = rr_rating rating_result,
                        rationale = None,
                        rating_rationale = Some (rr_rationale rating_result),
                        symptoms_matched = Some considered,
                        assessment_criteria_met = Some (get_criteria_met tod_condition symptoms),
                        medical_evidence_support =
                          Some (evaluate_medical_evidence condition_name medical_evidence),
                        base_rating = rr_base_rating rating_result,
                        symptom_adjustment = rr_symptom_adjustment rating_result,
                        error = None\<rparr>)))"

text \<open>
  Python's \<open>round\<close> rounds a tie to the even neighbour. The combination loop divides
  by \<open>100\<close> in floating point; the model computes the same expression in exact rational
  arithmetic.
\<close>

definition py_round :: "rat \<Rightarrow> int" where
  "py_round x =
     (let f = \<lfloor>x\<rfloor>; d = x - of_int f
      in if d < 1 / 2 then f
         else if 1 / 2 < d then f + 1
         else if even f then f else f + 1)"

definition combine_step :: "rat \<Rightarrow> int \<Rightarrow> rat" where
  "combine_step total_rating r = total_rating + of_int r - (total_rating * of_int r / 100)"

record calculation_details =
  valid_conditions :: nat
  total_conditions :: nat

text \<open>
  The result of \<open>_calculate_combined_rating\<close>. The two early returns give a dictionary
  without \<open>individual_ratings\<close>, \<open>pct_applied\<close> and \<open>calculation_details\<close>; its key
  \<open>method\<close> is the field \<open>cr_method\<close>. The
  \<open>combination_steps\<close> trace, which prints floating-point numbers, is not modelled.
\<close>

record combined_rating =
  total_rating :: int
  individual_ratings :: "int list option"
  cr_method :: string
  pct_applied :: "bool option"
  confidence :: string
  details :: "calculation_details option"

definition calculate_combined_rating ::
  "assessment list \<Rightarrow> case_condition list \<Rightarrow> combined_rating" where
  "calculate_combined_rating conditions pre_existing =
     (if conditions = [] then
        \<lparr>total_rating = 0, individual_ratings = None, cr_method = ''no_conditions'',
         pct_applied = None, confidence = ''low'', details = None\<rparr>
      else
        let valid = filter tod_found conditions;
            ratings = map rating valid
        in if ratings = [] then
             \<lparr>total_rating = 0, individual_ratings = None, cr_method = ''no_valid_conditions'',
              pct_applied = None, confidence = ''low'', details = None\<rparr>
           else
             let (total, meth, conf) =
                   (if length ratings = 1 then (hd ratings, ''single_condition'', ''high'')
                    else (py_round (foldl combine_step (of_int (hd ratings)) (tl ratings)),
                          ''vac_combination_formula'', ''medium''));
                 applied = (pre_existing \<noteq> []);
                 conf = (if pre_existing \<noteq> [] then ''medium'' else conf);
                 total = min 100 total
             in \<lparr>total_rating = total, individual_ratings = Some ratings, cr_method = meth,
                 pct_applied = Some applied, confidence = conf,
                 details = Some \<lparr>valid_conditions = length valid,
                                 total_conditions = length conditions\<rparr>\<rparr>)"

text \<open>
  \<open>_assess_functional_limitations\<close>: the \<open>if\<close>/\<open>elif\<close> chain over the condition name,
  then the loop that collects the limitations in a set, returned sorted.
\<close>

definition limitations_for :: "string \<Rightarrow> string list" where
  "limitations_for condition_name =
     (if any_in [''mental'', ''ptsd'', ''anxiety'', ''depression''] condition_name
        then [''concentration'', ''memory'', ''social_interaction'', ''decision_making'']
      else if any_in [''back'', ''spine'', ''lumbar''] condition_name
        then [''mobility'', ''lifting'', ''prolonged_sitting'', ''bending'']
      else if any_in [''knee'', ''leg'', ''hip''] condition_name
        then [''walking'', ''standing'', ''climbing'', ''running'']
      else if any_in [''shoulder'', ''arm'', ''hand''] condition_name
        then [''reaching'', ''grasping'', ''lifting'', ''fine_motor'']
      else if any_in [''neck'', ''cervical''] condition_name
        then [''neck_movement'', ''concentration'', ''headaches'']
      else [])"

definition limitation_step :: "assessment \<Rightarrow> string set \<Rightarrow> string set" where
  "limitation_step c limitations =
     (if \<not> tod_found c then limitations
      else if rating c \<ge> 50 then limitations \<union> set (limitations_for (lower (condition c)))
      else limitations)"

definition assess_functional_limitations :: "assessment list \<Rightarrow> string list" where
  "assess_functional_limitations conds = sorted_list_of_set (fold limitation_step conds {})"

text \<open>\<open>str(xs)\<close> of a list of strings that need no escaping.\<close>

fun join_with :: "string \<Rightarrow> string list \<Rightarrow> string" where
  "join_with sep [] = []"
| "join_with sep [x] = x"
| "join_with sep (x # y # ys) = x @ sep @ join_with sep (y # ys)"

definition str_list :: "string list \<Rightarrow> string" where
  "str_list xs = ''['' @ join_with '', '' (map (\<lambda>s. [CHR 0x27] @ s @ [CHR 0x27]) xs) @ '']''"

definition base_recommendations :: "(string \<times> string list) list" where
  "base_recommendations =
     [(''mild'', [''Regular medical follow-up recommended'',
                  ''Monitor condition progression'',
                  ''Consider preventive care measures'']),
      (''moderate'', [''Regular medical care and monitoring required'',
                      ''Consider rehabilitation services'',
                      ''Workplace accommodations may be beneficial'',
                      ''Assess need for assistive devices'']),
      (''moderate_to_severe'', [''Comprehensive medical care required'',
                                ''Rehabilitation and support services recommended'',
                                ''Significant workplace accommodations needed'',
                                ''Consider vocational retraining options'',
                                ''Family support services may be helpful'']),
      (''severe'', [''Intensive medical care and support required'',
                    ''Comprehensive rehabilitation program recommended'',
                    ''Full disability accommodations needed'',
                    ''Consider long-term care planning'',
                    ''Family and caregiver support essential''])]"

definition generate_qol_recommendations :: "string \<Rightarrow> string list \<Rightarrow> string list" where
  "generate_qol_recommendations level limitations =
     (let recs = (case map_of base_recommendations level of Some rs \<Rightarrow> rs | None \<Rightarrow> []);
          recs = (if ''mobility'' \<in> set limitations
                  then recs @ [''Assess need for mobility aids and home modifications''] else recs);
          recs = (if str_in ''mental'' (lower (str_list limitations))
                     \<or> ''concentration'' \<in> set limitations
                  then recs @ [''Consider mental health support services''] else recs)
      in if length limitations > 3
         then recs @ [''Comprehensive occupational therapy assessment recommended''] else recs)"

record assessment_factors =
  multiple_conditions :: bool
  high_individual_ratings :: bool
  mental_health_present :: bool

record quality_of_life =
  impact_level :: string
  qol_total_rating :: int
  condition_count :: nat
  functional_limitations :: "string list"
  qol_recommendations :: "string list"
  factors :: assessment_factors

text \<open>\<open>_assess_quality_of_life\<close>. Its \<open>total_rating\<close> is \<open>qol_total_rating\<close> here.\<close>

definition assess_quality_of_life :: "assessment list \<Rightarrow> quality_of_life" where
  "assess_quality_of_life conds =
     (let total = sum_list (map rating (filter tod_found conds));
          cnt = length (filter tod_found conds);
          level = (if total \<ge> 75 then ''severe''
                   else if total \<ge> 50 then ''moderate_to_severe''
                   else if total \<ge> 25 then ''moderate''
                   else ''mild'');
          limitations = assess_functional_limitations conds
      in \<lparr>impact_level = level, qol_total_rating = total, condition_count = cnt,
          functional_limitations = limitations,
          qol_recommendations = generate_qol_recommendations level limitations,
          factors =
            \<lparr>multiple_conditions = (cnt > 1),
             high_individual_ratings = list_ex (\<lambda>c. rating c \<ge> 50) conds,
             mental_health_present =
               list_ex (\<lambda>c. str_in ''mental'' (lower (condition c))
                            \<or> str_in ''ptsd'' (lower (condition c))) conds\<rparr>\<rparr>)"

definition generate_recommendations :: "assessment list \<Rightarrow> string list" where
  "generate_recommendations conds =
     (let total = sum_list (map rating (filter tod_found conds));
          valid = filter tod_found conds;
          invalid = filter (\<lambda>c. \<not> tod_found c) conds;
          recs =
            (if total \<ge> 70 then
               [''Veteran qualifies for significant VAC disability benefits'',
                ''Priority access to VAC programs and services recommended'',
                ''Comprehensive support services should be considered'']
             else if total \<ge> 30 then
               [''Veteran qualifies for VAC disability compensation'',
                ''Rehabilitation services may be beneficial'',
                ''Regular medical follow-up recommended'']
             else
               [''Continue monitoring condition progression'',
                ''Document any symptom changes or deterioration'',
                ''Regular medical care recommended'']);
          recs = recs @ map (\<lambda>c. ''Obtain additional medical documentation for ''
                                   @ [CHR 0x27] @ condition c @ [CHR 0x27]) invalid;
          low_evidence =
            filter (\<lambda>c. case medical_evidence_support c of
                           None \<Rightarrow> False
                         | Some es \<Rightarrow> quality_assessment es \<in> set [''insufficient'', ''limited''])
              valid
      in if low_evidence \<noteq> []
         then recs @ [''Consider obtaining additional medical evidence for more accurate assessment'']
         else recs)"

record case_data =
  case_id :: "string option"
  assessment_date :: "string option"
  cd_conditions :: "case_condition list"
  cd_pre_existing :: "case_condition list"
  cd_medical_evidence :: "evidence list"

record case_assessment =
  ca_case_id :: "string option"
  ca_assessment_date :: "string option"
  total_disability_rating :: int
  individual_conditions :: "assessment list"
  combined_rating_breakdown :: combined_rating
  quality_of_life_impact :: quality_of_life
  recommendations :: "string list"
  tod_version :: string
  assessment_confidence :: string

definition assess_case :: "fuzz \<Rightarrow> vac_data_manager \<Rightarrow> case_data \<Rightarrow> case_assessment" where
  "assess_case fz dm cd =
     (let assessed_conditions =
            map (\<lambda>c. assess_condition fz dm c (cd_medical_evidence cd)) (cd_conditions cd);
          combined = calculate_combined_rating assessed_conditions (cd_pre_existing cd);
          qol_impact = assess_quality_of_life assessed_conditions
      in \<lparr>ca_case_id = case_id cd, ca_assessment_date = assessment_date cd,
          total_disability_rating = total_rating combined,
          individual_conditions = assessed_conditions,
          combined_rating_breakdown = combined,
          quality_of_life_impact = qol_impact,
          recommendations = generate_recommendations assessed_conditions,
          tod_version = ''VAC 2019'',
          assessment_confidence = confidence combined\<rparr>)"

section \<open>Reference definitions and example data\<close>

text \<open>The severity table in the words of the specification.\<close>

definition spec_base :: "string \<Rightarrow> int" where
  "spec_base s =
     (if s = ''minimal'' then 5
      else if s = ''mild'' then 10
      else if s = ''moderate'' then 30
      else if s = ''moderately_severe'' then 50
      else if s = ''severe'' then 70
      else if s = ''very_severe'' then 90
      else if s = ''total'' then 100
      else 20)"

text \<open>
  The category table of the functional limitations, in the order of the source, and the
  lookup that takes the first category one of whose terms occurs in the name.
\<close>

definition category_table :: "(string list \<times> string list) list" where
  "category_table =
     [([''mental'', ''ptsd'', ''anxiety'', ''depression''],
       [''concentration'', ''memory'', ''social_interaction'', ''decision_making'']),
      ([''back'', ''spine'', ''lumbar''],
       [''mobility'', ''lifting'', ''prolonged_sitting'', ''bending'']),
      ([''knee'', ''leg'', ''hip''],
       [''walking'', ''standing'', ''climbing'', ''running'']),
      ([''shoulder'', ''arm'', ''hand''],
       [''reaching'', ''grasping'', ''lifting'', ''fine_motor'']),
      ([''neck'', ''cervical''],
       [''neck_movement'', ''concentration'', ''headaches''])]"

definition first_category :: "string \<Rightarrow> string list" where
  "first_category condition_name =
     (case find (\<lambda>(terms, lims). any_in terms condition_name) category_table of
        None \<Rightarrow> []
      | Some (terms, lims) \<Rightarrow> lims)"

text \<open>
  A scorer that sees no similarity at all. The closed examples use it where an exact
  match, or no match, decides the lookup.
\<close>

definition no_fuzz :: fuzz where
  "no_fuzz = \<lparr>ratio = (\<lambda>_ _. 0), partial_ratio = (\<lambda>_ _. 0), token_sort_ratio = (\<lambda>_ _. 0)\<rparr>"

text \<open>
  A scorer whose partial similarity is ten times the length of the indexed text, for the
  search examples.
\<close>

definition length_fuzz :: fuzz where
  "length_fuzz = \<lparr>ratio = (\<lambda>_ _. 0),
                   partial_ratio = (\<lambda>_ t. 10 * int (length t)),
                   token_sort_ratio = (\<lambda>_ _. 0)\<rparr>"

definition ptsd :: condition where
  "ptsd = \<lparr>c_id = ''MH-01'', c_name = ''PTSD'', c_chapter = ''21'',
           c_description = ''Post-traumatic stress disorder'',
           c_symptoms = [''nightmares'', ''anxiety''], c_keywords = [''trauma'']\<rparr>"

definition lumbar :: condition where
  "lumbar = \<lparr>c_id = ''MS-02'', c_name = ''Lumbar strain'', c_chapter = ''17'',
             c_description = ''Strain of the lumbar spine'',
             c_symptoms = [''stiffness''], c_keywords = [''lower back pain'']\<rparr>"

definition blank :: condition where
  "blank = \<lparr>c_id = ''X-00'', c_name = ''Unnamed'', c_chapter = ''00'',
            c_description = '' '', c_symptoms = [], c_keywords = []\<rparr>"

definition example_store :: vac_data_manager where
  "example_store = make_manager [(''MH-01'', ptsd), (''MS-02'', lumbar)]"

definition blank_store :: vac_data_manager where
  "blank_store = make_manager [(''X-00'', blank)]"

definition five_symptoms :: "string list" where
  "five_symptoms = [''a'', ''b'', ''c'', ''d'', ''e'']"

definition ptsd_claim :: case_condition where
  "ptsd_claim = \<lparr>cc_name = ''PTSD'', cc_symptoms = five_symptoms, cc_severity = ''Moderate''\<rparr>"

definition back_claim :: case_condition where
  "back_claim = \<lparr>cc_name = '' Lower Back Pain '', cc_symptoms = five_symptoms,
                 cc_severity = ''moderate''\<rparr>"

definition total_claim :: case_condition where
  "total_claim = \<lparr>cc_name = ''trauma'', cc_symptoms = five_symptoms @ five_symptoms,
                  cc_severity = ''TOTAL''\<rparr>"

definition unknown_claim :: case_condition where
  "unknown_claim = \<lparr>cc_name = ''tinnitus'', cc_symptoms = [], cc_severity = ''mild''\<rparr>"

definition example_case :: "case_condition list \<Rightarrow> case_data" where
  "example_case cs = \<lparr>case_id = None, assessment_date = None, cd_conditions = cs,
                      cd_pre_existing = [], cd_medical_evidence = []\<rparr>"

text \<open>An assessed condition with a given name, resolution flag and rating.\<close>

definition assessed :: "string \<Rightarrow> bool \<Rightarrow> int \<Rightarrow> assessment" where
  "assessed n found r =
     \<lparr>condition = n, tod_condition_id = None, tod_chapter = None, tod_found = found,
      rating = r, rationale = None, rating_rationale = None, symptoms_matched = None,
      assessment_criteria_met = None, medical_evidence_support = None, base_rating = None,
      symptom_adjustment = None, error = None\<rparr>"

text \<open>
  The total that \<open>_calculate_combined_rating\<close> computes, as a function of the list of
  the ratings of the resolved conditions.
\<close>

definition combined_of :: "int list \<Rightarrow> int" where
  "combined_of rs =
     (if rs = [] then 0
      else if length rs = 1 then min 100 (hd rs)
      else min 100 (py_round (foldl combine_step (of_int (hd rs)) (tl rs))))"

section \<open>Properties\<close>

subsection \<open>The lookup never fails at a positive threshold\<close>

lemma scan_terms_inv:
  "scan_terms fz q c ts (bm, bs) = Inr (bm', bs') \<Longrightarrow> (bm = None \<longrightarrow> bs = 0)
     \<Longrightarrow> (bm' = None \<longrightarrow> bs' = 0)"
  by (induction ts arbitrary: bm bs) (auto split: if_splits simp: Let_def)

lemma scan_index_inv:
  "scan_index fz q idx (bm, bs) = Inr (bm', bs') \<Longrightarrow> (bm = None \<longrightarrow> bs = 0)
     \<Longrightarrow> (bm' = None \<longrightarrow> bs' = 0)"
proof (induction idx arbitrary: bm bs)
  case Nil
  then show ?case by simp
next
  case (Cons e idx)
  obtain cid ix where e: "e = (cid, ix)" by (cases e)
  show ?case
  proof (cases "ratio fz q (primary_name ix) > bs")
    case True
    with Cons.prems e obtain bm1 bs1 where
      s: "scan_terms fz q (ix_condition ix) (search_terms ix)
            (Some (ix_condition ix), ratio fz q (primary_name ix)) = Inr (bm1, bs1)"
      and r: "scan_index fz q idx (bm1, bs1) = Inr (bm', bs')"
      by (auto simp: Let_def split: sum.splits)
    from scan_terms_inv[OF s] have "bm1 = None \<longrightarrow> bs1 = 0" by simp
    from Cons.IH[OF r this] show ?thesis .
  next
    case False
    with Cons.prems e obtain bm1 bs1 where
      s: "scan_terms fz q (ix_condition ix) (search_terms ix) (bm, bs) = Inr (bm1, bs1)"
      and r: "scan_index fz q idx (bm1, bs1) = Inr (bm', bs')"
      by (auto simp: Let_def split: sum.splits)
    from scan_terms_inv[OF s] Cons.prems(2) have "bm1 = None \<longrightarrow> bs1 = 0" by simp
    from Cons.IH[OF r this] show ?thesis .
  qed
qed

lemma find_condition_no_error:
  "0 < thr \<Longrightarrow> find_condition fz dm n thr \<noteq> Inl e"
proof
  assume thr: "0 < thr" and f: "find_condition fz dm n thr = Inl e"
  then obtain bs where
    s: "scan_index fz (strip (lower n)) (search_index dm) (None, 0) = Inr (None, bs)"
    and b: "thr \<le> bs"
    by (auto simp: find_condition_def split: if_splits sum.splits option.splits)
  from scan_index_inv[OF s] have "bs = 0" by simp
  with b thr show False by simp
qed

subsection \<open>Individual ratings\<close>

lemma base_lookup:
  "(case map_of severity_ratings s of Some b \<Rightarrow> b | None \<Rightarrow> 20) = spec_base s"
  by (simp add: severity_ratings_def spec_base_def)

lemma spec_base_range: "0 \<le> spec_base s \<and> spec_base s \<le> 100"
  by (simp add: spec_base_def)

lemma basic_rating_found:
  assumes "find_condition fz dm n 70 = Inr (Some c)"
  shows "\<exists>rr. calculate_basic_rating fz dm n sev syms = Inr rr
           \<and> rr_rating rr = min (spec_base (lower sev) + min (2 * int (length syms)) 20) 100
           \<and> rr_symptoms_considered rr = Some syms"
  using assms by (simp add: calculate_basic_rating_def Let_def base_lookup mult.commute)

lemma assess_condition_found:
  assumes "find_condition fz dm (cc_name cc) 70 = Inr (Some c)"
  shows "tod_found (assess_condition fz dm cc ev)
         \<and> rating (assess_condition fz dm cc ev)
             = min (spec_base (lower (cc_severity cc))
                    + min (2 * int (length (cc_symptoms cc))) 20) 100"
  using assms basic_rating_found[OF assms, of "cc_severity cc" "cc_symptoms cc"]
  by (auto simp: assess_condition_def Let_def)

lemma assess_condition_not_found:
  assumes "find_condition fz dm (cc_name cc) 70 = Inr None"
  shows "\<not> tod_found (assess_condition fz dm cc ev) \<and> rating (assess_condition fz dm cc ev) = 0
    \<and> rationale (assess_condition fz dm cc ev) = Some (not_found_text (cc_name cc))"
  using assms by (simp add: assess_condition_def Let_def)

lemma find_condition_cases:
  "find_condition fz dm n 70 = Inr None \<or> (\<exists>c. find_condition fz dm n 70 = Inr (Some c))"
proof (cases "find_condition fz dm n 70")
  case (Inl e)
  with find_condition_no_error[of 70 fz dm n e] show ?thesis by simp
next
  case (Inr r)
  then show ?thesis by (cases r) auto
qed

lemma assess_condition_range:
  "0 \<le> rating (assess_condition fz dm cc ev) \<and> rating (assess_condition fz dm cc ev) \<le> 100"
  using find_condition_cases[of fz dm "cc_name cc"] spec_base_range[of "lower (cc_severity cc)"]
  by (auto simp: assess_condition_found assess_condition_not_found)

lemma find_trauma: "find_condition no_fuzz example_store ''trauma'' 70 = Inr (Some ptsd)"
  by code_simp

lemma lower_total: "lower ''TOTAL'' = ''total''"
  by code_simp

text \<open>
  C6. When the condition name resolves, the rating that \<open>calculate_basic_rating\<close> computes,
  and that \<open>_assess_condition\<close> reports, is
  \<open>min (base + min (2 * number of symptoms, 20), 100)\<close>, where the base is the
  specification's severity table applied to the lower-cased severity label and is 20
  for a label the table lacks.
\<close>

theorem rating_formula:
  assumes "find_condition fz dm n 70 = Inr (Some c)"
  shows "(\<exists>rr. calculate_basic_rating fz dm n sev syms = Inr rr
           \<and> rr_rating rr = min (spec_base (lower sev) + min (2 * int (length syms)) 20) 100)
       \<and> rating (assess_condition fz dm \<lparr>cc_name = n, cc_symptoms = syms, cc_severity = sev\<rparr> ev)
           = min (spec_base (lower sev) + min (2 * int (length syms)) 20) 100"
  using basic_rating_found[OF assms, of sev syms]
    assess_condition_found[of fz dm "\<lparr>cc_name = n, cc_symptoms = syms, cc_severity = sev\<rparr>" c ev]
    assms
  by auto

text \<open>Severity \<open>TOTAL\<close> with ten symptoms rates 100, not 120.\<close>

theorem rating_formula_witness:
  "rating (assess_condition no_fuzz example_store total_claim []) = 100"
proof -
  have sb: "spec_base ''total'' = 100" by (simp add: spec_base_def)
  have tc: "total_claim = \<lparr>cc_name = ''trauma'', cc_symptoms = five_symptoms @ five_symptoms,
                           cc_severity = ''TOTAL''\<rparr>"
    by (simp add: total_claim_def)
  have len: "length (five_symptoms @ five_symptoms) = 10" by (simp add: five_symptoms_def)
  show ?thesis
    using rating_formula[OF find_trauma, of "''TOTAL''" "five_symptoms @ five_symptoms" "[]"]
    unfolding tc lower_total sb len by simp
qed

subsection \<open>Unresolved conditions\<close>

lemma str_in_sublist: "str_in xs ys \<longleftrightarrow> sublist xs ys"
  by (induction ys) (auto simp: sublist_Cons_right)

lemma not_found_mentions: "str_in n (not_found_text n)"
  unfolding str_in_sublist not_found_text_def sublist_def
  by (rule exI[of _ "''Condition '' @ [CHR 0x27]"],
      rule exI[of _ "[CHR 0x27] @ '' not found in VAC ToD 2019''"]) simp

lemma find_tinnitus: "find_condition no_fuzz example_store ''tinnitus'' 70 = Inr None"
  by code_simp

text \<open>
  C7. Every condition assessment has a rating between 0 and 100. When the condition name
  does not resolve, the assessment is marked as not found, rates exactly 0, and its
  rationale is the not-found text, in which the input condition name occurs.
\<close>

theorem unresolved_rates_zero:
  "(0 \<le> rating (assess_condition fz dm cc ev) \<and> rating (assess_condition fz dm cc ev) \<le> 100)
   \<and> ((\<nexists>c. find_condition fz dm (cc_name cc) 70 = Inr (Some c)) \<longrightarrow>
        \<not> tod_found (assess_condition fz dm cc ev)
        \<and> rating (assess_condition fz dm cc ev) = 0
        \<and> rationale (assess_condition fz dm cc ev) = Some (not_found_text (cc_name cc))
        \<and> str_in (cc_name cc) (not_found_text (cc_name cc)))"
  using assess_condition_range[of fz dm cc ev] find_condition_cases[of fz dm "cc_name cc"]
    assess_condition_not_found[of fz dm cc ev] not_found_mentions[of "cc_name cc"]
  by auto

theorem unresolved_rates_zero_witness:
  "rating (assess_condition no_fuzz example_store unknown_claim []) = 0
   \<and> rationale (assess_condition no_fuzz example_store unknown_claim [])
       = Some ''Condition 'tinnitus' not found in VAC ToD 2019''"
proof -
  have n: "cc_name unknown_claim = ''tinnitus''" by (simp add: unknown_claim_def)
  have "\<nexists>c. find_condition no_fuzz example_store (cc_name unknown_claim) 70 = Inr (Some c)"
    unfolding n find_tinnitus by simp
  with unresolved_rates_zero[of no_fuzz example_store unknown_claim "[]"] show ?thesis
    unfolding n by (simp add: not_found_text_def)
qed

subsection \<open>The combination calculator: early returns and pre-existing conditions\<close>

text \<open>
  C2, as stated, fails for the empty list: \<open>_calculate_combined_rating\<close> returns the method
  \<open>no_conditions\<close> there, not \<open>no_valid_conditions\<close>.
\<close>

theorem empty_list_method_counterexample:
  "\<not> (total_rating (calculate_combined_rating [] []) = 0
      \<and> cr_method (calculate_combined_rating [] []) = ''no_valid_conditions'')"
  by (simp add: calculate_combined_rating_def)

text \<open>
  C2, amended. When no assessed condition resolved, the combined rating is 0 with
  confidence \<open>low\<close>; the method is \<open>no_valid_conditions\<close> for a non-empty list and
  \<open>no_conditions\<close> for the empty list.
\<close>

theorem no_valid_conditions_result:
  assumes "filter tod_found conds = []"
  shows "total_rating (calculate_combined_rating conds pre) = 0
       \<and> confidence (calculate_combined_rating conds pre) = ''low''
       \<and> cr_method (calculate_combined_rating conds pre)
           = (if conds = [] then ''no_conditions'' else ''no_valid_conditions'')"
  using assms by (simp add: calculate_combined_rating_def Let_def)

theorem no_valid_conditions_result_witness:
  "cr_method (calculate_combined_rating [assessed ''tinnitus'' False 0] []) = ''no_valid_conditions''
   \<and> cr_method (calculate_combined_rating [] []) = ''no_conditions''"
proof -
  have a: "filter tod_found [assessed ''tinnitus'' False 0] = []" by (simp add: assessed_def)
  have b: "filter tod_found ([] :: assessment list) = []" by simp
  show ?thesis
    using no_valid_conditions_result[OF a, of "[]"] no_valid_conditions_result[OF b, of "[]"]
    by simp
qed

text \<open>
  C8, as stated, fails when no condition resolved: the early return carries no
  \<open>pct_applied\<close> flag and has confidence \<open>low\<close>, whatever the pre-existing list.
\<close>

theorem pre_existing_no_conditions_counterexample:
  "\<not> (pct_applied (calculate_combined_rating [] [ptsd_claim]) = Some True
      \<and> confidence (calculate_combined_rating [] [ptsd_claim]) = ''medium'')"
  by (simp add: calculate_combined_rating_def)

text \<open>
  C8, amended. When the pre-existing list is non-empty and at least one assessed condition
  resolved, the result has \<open>pct_applied\<close> true and confidence \<open>medium\<close>, and its combined
  percentage is the one computed for an empty pre-existing list.
\<close>

theorem pre_existing_flag:
  assumes "pre \<noteq> []" and "filter tod_found conds \<noteq> []"
  shows "pct_applied (calculate_combined_rating conds pre) = Some True
       \<and> confidence (calculate_combined_rating conds pre) = ''medium''
       \<and> total_rating (calculate_combined_rating conds pre)
           = total_rating (calculate_combined_rating conds [])"
  using assms by (auto simp: calculate_combined_rating_def Let_def split: prod.splits)

theorem pre_existing_flag_witness:
  "pct_applied (calculate_combined_rating [assessed ''ptsd'' True 40] [ptsd_claim]) = Some True
   \<and> confidence (calculate_combined_rating [assessed ''ptsd'' True 40] [ptsd_claim]) = ''medium''
   \<and> total_rating (calculate_combined_rating [assessed ''ptsd'' True 40] [ptsd_claim]) = 40
   \<and> confidence (calculate_combined_rating [assessed ''ptsd'' True 40] []) = ''high''"
proof -
  have a: "[ptsd_claim] \<noteq> []" by simp
  have b: "filter tod_found [assessed ''ptsd'' True 40] \<noteq> []" by (simp add: assessed_def)
  have c: "total_rating (calculate_combined_rating [assessed ''ptsd'' True 40] []) = 40
    \<and> confidence (calculate_combined_rating [assessed ''ptsd'' True 40] []) = ''high''"
    by (simp add: calculate_combined_rating_def assessed_def)
  show ?thesis using pre_existing_flag[OF a b] c by simp
qed

subsection \<open>A single rated condition\<close>

lemma individual_conditions_assess_case:
  "individual_conditions (assess_case fz dm cd)
     = map (\<lambda>c. assess_condition fz dm c (cd_medical_evidence cd)) (cd_conditions cd)"
  by (simp add: assess_case_def Let_def)

lemma breakdown_assess_case:
  "combined_rating_breakdown (assess_case fz dm cd)
     = calculate_combined_rating (individual_conditions (assess_case fz dm cd)) (cd_pre_existing cd)"
  "total_disability_rating (assess_case fz dm cd)
     = total_rating (combined_rating_breakdown (assess_case fz dm cd))"
  "assessment_confidence (assess_case fz dm cd)
     = confidence (combined_rating_breakdown (assess_case fz dm cd))"
  by (simp_all add: assess_case_def Let_def)

lemma single_valid_combined:
  assumes "filter tod_found conds = [a]" and "rating a \<le> 100"
  shows "total_rating (calculate_combined_rating conds []) = rating a
       \<and> cr_method (calculate_combined_rating conds []) = ''single_condition''
       \<and> confidence (calculate_combined_rating conds []) = ''high''"
proof -
  from assms(1) have ne: "conds \<noteq> []" by auto
  show ?thesis using assms ne by (simp add: calculate_combined_rating_def Let_def)
qed

lemma example_one:
  "filter tod_found (individual_conditions
      (assess_case no_fuzz example_store (example_case [unknown_claim, ptsd_claim])))
   = [assess_condition no_fuzz example_store ptsd_claim []]"
  by code_simp

lemma ptsd_rating: "rating (assess_condition no_fuzz example_store ptsd_claim []) = 40"
  by code_simp

text \<open>
  C5. In a case without pre-existing conditions whose assessed conditions contain exactly
  one resolved condition, of rating \<open>R\<close>, the combination calculator returns \<open>R\<close> itself
  with method \<open>single_condition\<close> and confidence \<open>high\<close>, and \<open>R\<close> is the total disability
  rating of the case.
\<close>

theorem single_condition_identity:
  assumes "cd_pre_existing cd = []"
    and "filter tod_found (individual_conditions (assess_case fz dm cd)) = [a]"
  shows "total_rating (combined_rating_breakdown (assess_case fz dm cd)) = rating a
       \<and> cr_method (combined_rating_breakdown (assess_case fz dm cd)) = ''single_condition''
       \<and> confidence (combined_rating_breakdown (assess_case fz dm cd)) = ''high''
       \<and> total_disability_rating (assess_case fz dm cd) = rating a"
proof -
  have "a \<in> set (filter tod_found (individual_conditions (assess_case fz dm cd)))"
    using assms(2) by simp
  then have "a \<in> set (individual_conditions (assess_case fz dm cd))" by simp
  then obtain c where "a = assess_condition fz dm c (cd_medical_evidence cd)"
    unfolding individual_conditions_assess_case by auto
  then have "rating a \<le> 100" using assess_condition_range by simp
  from single_valid_combined[OF assms(2) this] show ?thesis
    unfolding breakdown_assess_case assms(1) by simp
qed

theorem single_condition_identity_witness:
  "total_disability_rating
     (assess_case no_fuzz example_store (example_case [unknown_claim, ptsd_claim])) = 40
   \<and> cr_method (combined_rating_breakdown
       (assess_case no_fuzz example_store (example_case [unknown_claim, ptsd_claim])))
       = ''single_condition''
   \<and> confidence (combined_rating_breakdown
       (assess_case no_fuzz example_store (example_case [unknown_claim, ptsd_claim])))
       = ''high''"
proof -
  have p: "cd_pre_existing (example_case [unknown_claim, ptsd_claim]) = []"
    by (simp add: example_case_def)
  show ?thesis using single_condition_identity[OF p example_one] ptsd_rating by simp
qed

subsection \<open>Quality of life\<close>

lemma impact_level_sum:
  "impact_level (assess_quality_of_life conds) =
     (let s = sum_list (map rating (filter tod_found conds))
      in if s \<ge> 75 then ''severe'' else if s \<ge> 50 then ''moderate_to_severe''
         else if s \<ge> 25 then ''moderate'' else ''mild'')"
  by (simp add: assess_quality_of_life_def Let_def)

text \<open>
  C1. \<open>_assess_quality_of_life\<close> applies the thresholds to the plain sum of the ratings of
  the resolved conditions, not to the combined rating. Two resolved conditions rated 40
  each combine to 64, which the thresholds place in \<open>moderate_to_severe\<close>; the reported
  impact level is \<open>severe\<close>, from the sum 80.
\<close>

theorem impact_level_from_sum:
  "total_disability_rating
     (assess_case no_fuzz example_store (example_case [ptsd_claim, back_claim])) = 64
   \<and> impact_level (quality_of_life_impact
        (assess_case no_fuzz example_store (example_case [ptsd_claim, back_claim]))) = ''severe''"
  by code_simp

subsection \<open>Exact match in \<open>find_condition\<close>\<close>

lemma scan_terms_exact:
  "q \<noteq> [] \<Longrightarrow> q \<in> set ts \<Longrightarrow> scan_terms fz q c ts st = Inl c"
proof (induction ts arbitrary: st)
  case Nil
  then show ?case by simp
next
  case (Cons t ts)
  obtain bm bs where st: "st = (bm, bs)" by (cases st)
  show ?case
  proof (cases "q = t")
    case True
    with Cons.prems st show ?thesis by simp
  next
    case False
    with Cons.prems have "q \<in> set ts" by simp
    from Cons.IH[OF Cons.prems(1) this] show ?thesis
      using st False by (simp add: Let_def)
  qed
qed

lemma scan_terms_Inl:
  "scan_terms fz q c ts st = Inl c' \<Longrightarrow> c' = c \<and> q \<in> set ts"
proof (induction ts arbitrary: st)
  case Nil
  then show ?case by simp
next
  case (Cons t ts)
  obtain bm bs where st: "st = (bm, bs)" by (cases st)
  show ?case
  proof (cases "t \<noteq> [] \<and> q = t")
    case True
    with Cons.prems st show ?thesis by simp
  next
    case False
    with Cons.prems st obtain st' where "scan_terms fz q c ts st' = Inl c'"
      by (auto simp: Let_def split: if_splits)
    from Cons.IH[OF this] show ?thesis by simp
  qed
qed

lemma scan_index_exact:
  assumes "q \<noteq> []" and "(cid, ix) \<in> set idx" and "q \<in> set (search_terms ix)"
  shows "\<exists>cid' ix'. (cid', ix') \<in> set idx \<and> q \<in> set (search_terms ix')
           \<and> scan_index fz q idx st = Inl (ix_condition ix')"
  using assms(2)
proof (induction idx arbitrary: st)
  case Nil
  then show ?case by simp
next
  case (Cons e idx)
  obtain cid0 ix0 where e: "e = (cid0, ix0)" by (cases e)
  obtain bm bs where st: "st = (bm, bs)" by (cases st)
  define st1 where "st1 = (if ratio fz q (primary_name ix0) > bs
     then (Some (ix_condition ix0), ratio fz q (primary_name ix0)) else (bm, bs))"
  have unf: "scan_index fz q (e # idx) st =
     (case scan_terms fz q (ix_condition ix0) (search_terms ix0) st1 of
        Inl c \<Rightarrow> Inl c | Inr st2 \<Rightarrow> scan_index fz q idx st2)"
    by (simp add: e st st1_def Let_def)
  show ?case
  proof (cases "scan_terms fz q (ix_condition ix0) (search_terms ix0) st1")
    case (Inl c')
    from scan_terms_Inl[OF Inl] have "c' = ix_condition ix0" "q \<in> set (search_terms ix0)" by auto
    with Inl unf e show ?thesis by auto
  next
    case (Inr st2)
    have "q \<notin> set (search_terms ix0)"
    proof
      assume "q \<in> set (search_terms ix0)"
      from scan_terms_exact[OF assms(1) this] Inr show False by simp
    qed
    with Cons.prems e assms(3) have "(cid, ix) \<in> set idx" by auto
    from Cons.IH[OF this, of st2] obtain cid' ix' where
      "(cid', ix') \<in> set idx" "q \<in> set (search_terms ix')"
      "scan_index fz q idx st2 = Inl (ix_condition ix')" by blast
    with unf Inr show ?thesis by auto
  qed
qed

lemma strip_nonempty: "strip (lower n) \<noteq> [] \<Longrightarrow> n \<noteq> []"
  by (auto simp: strip_def lower_def)

lemma back_q: "strip (lower '' Lower Back Pain '') = ''lower back pain''"
  by code_simp

lemma back_terms: "''lower back pain'' \<in> set (cleaned_terms lumbar)"
  by code_simp

lemma back_not_ptsd: "''lower back pain'' \<notin> set (cleaned_terms ptsd)"
  by code_simp

text \<open>
  C3, as stated, fails when the normalised query is empty. A description that consists of
  one blank is indexed as the empty term. The empty query is turned away by the first
  guard of \<open>find_condition\<close>, and for the query of one blank the scan skips the empty
  term, so that the scores alone decide.
\<close>

theorem empty_query_counterexample:
  "strip (lower []) \<in> set (cleaned_terms blank)
   \<and> find_condition no_fuzz blank_store [] 70 = Inr None
   \<and> strip (lower '' '') \<in> set (cleaned_terms blank)
   \<and> find_condition no_fuzz blank_store '' '' 70 = Inr None"
  by code_simp

text \<open>
  C3, amended. If the lower-cased, trimmed query is not empty and equals an indexed term of
  some condition of the store, then \<open>find_condition\<close> returns a condition of the store
  that has this term among its indexed terms, for every threshold and whatever the
  scoring functions answer.
\<close>

theorem exact_match_wins:
  assumes "strip (lower name) \<noteq> []"
    and "(cid, c) \<in> set cidx"
    and "strip (lower name) \<in> set (cleaned_terms c)"
  shows "\<exists>c'. find_condition fz (make_manager cidx) name thr = Inr (Some c')
           \<and> c' \<in> snd ` set cidx
           \<and> strip (lower name) \<in> set (cleaned_terms c')"
proof -
  let ?q = "strip (lower name)"
  let ?idx = "build_search_index cidx"
  let ?ix = "\<lparr>ix_condition = c, search_terms = cleaned_terms c, primary_name = lower (c_name c)\<rparr>"
  have mem: "(cid, ?ix) \<in> set ?idx"
    using assms(2) by (force simp: build_search_index_def)
  have t: "?q \<in> set (search_terms ?ix)" using assms(3) by simp
  from scan_index_exact[OF assms(1) mem t, of fz "(None, 0)"] obtain cid' ix' where
    m': "(cid', ix') \<in> set ?idx" and t': "?q \<in> set (search_terms ix')"
    and s: "scan_index fz ?q ?idx (None, 0) = Inl (ix_condition ix')" by blast
  from m' obtain c' where c': "(cid', c') \<in> set cidx"
    and ix': "ix' = \<lparr>ix_condition = c', search_terms = cleaned_terms c',
                     primary_name = lower (c_name c')\<rparr>"
    by (auto simp: build_search_index_def)
  have ne: "name \<noteq> []" using strip_nonempty[OF assms(1)] .
  have idxne: "?idx \<noteq> []" using mem by auto
  have "find_condition fz (make_manager cidx) name thr = Inr (Some c')"
    using s ne idxne ix' by (simp add: find_condition_def make_manager_def)
  moreover have "c' \<in> snd ` set cidx" using c' by force
  moreover have "?q \<in> set (cleaned_terms c')" using t' ix' by simp
  ultimately show ?thesis by blast
qed

theorem exact_match_wins_witness:
  "find_condition no_fuzz example_store '' Lower Back Pain '' 100 = Inr (Some lumbar)
   \<and> find_condition length_fuzz example_store '' Lower Back Pain '' 100 = Inr (Some lumbar)"
proof -
  have ne: "strip (lower '' Lower Back Pain '') \<noteq> []" unfolding back_q by simp
  have mem: "(''MS-02'', lumbar) \<in> set [(''MH-01'', ptsd), (''MS-02'', lumbar)]" by simp
  have t: "strip (lower '' Lower Back Pain '') \<in> set (cleaned_terms lumbar)"
    unfolding back_q by (rule back_terms)
  from exact_match_wins[OF ne mem t, of no_fuzz 100]
    exact_match_wins[OF ne mem t, of length_fuzz 100] back_not_ptsd
  show ?thesis unfolding back_q example_store_def by auto
qed

subsection \<open>The combination rule is bounded and monotone\<close>

lemma py_round_cases: "py_round x = \<lfloor>x\<rfloor> \<or> py_round x = \<lfloor>x\<rfloor> + 1"
  by (simp add: py_round_def Let_def)

lemma py_round_of_int: "py_round (of_int n) = n"
  by (simp add: py_round_def Let_def)

lemma py_round_lower: "x - of_int \<lfloor>x\<rfloor> > 1 / 2 \<Longrightarrow> py_round x = \<lfloor>x\<rfloor> + 1"
  by (simp add: py_round_def Let_def)

lemma py_round_upper: "x - of_int \<lfloor>x\<rfloor> < 1 / 2 \<Longrightarrow> py_round x = \<lfloor>x\<rfloor>"
  by (simp add: py_round_def Let_def)

lemma py_round_mono:
  assumes "x \<le> y"
  shows "py_round x \<le> py_round y"
proof (cases "\<lfloor>x\<rfloor> < \<lfloor>y\<rfloor>")
  case True
  have "py_round x \<le> \<lfloor>x\<rfloor> + 1" using py_round_cases[of x] by auto
  also have "\<dots> \<le> \<lfloor>y\<rfloor>" using True by simp
  also have "\<dots> \<le> py_round y" using py_round_cases[of y] by auto
  finally show ?thesis .
next
  case False
  with assms have eq: "\<lfloor>x\<rfloor> = \<lfloor>y\<rfloor>" using floor_mono[OF assms] by simp
  then have le: "x - of_int \<lfloor>x\<rfloor> \<le> y - of_int \<lfloor>y\<rfloor>" using assms by simp
  then show ?thesis
    unfolding py_round_def Let_def eq by auto
qed

lemma combine_step_bounds:
  assumes "0 \<le> t" "t \<le> 100" "0 \<le> r" "r \<le> 100"
  shows "0 \<le> combine_step t r \<and> combine_step t r \<le> 100 \<and> t \<le> combine_step t r"
proof -
  have eq1: "combine_step t r = t + of_int r * (100 - t) / 100"
    by (simp add: combine_step_def field_simps)
  have eq2: "100 - combine_step t r = (100 - t) * (100 - of_int r) / 100"
    by (simp add: combine_step_def field_simps)
  have r0: "(0::rat) \<le> of_int r" and r1: "(of_int r :: rat) \<le> 100" using assms by auto
  have "0 \<le> of_int r * (100 - t) / 100" using r0 assms by simp
  then have ge: "t \<le> combine_step t r" unfolding eq1 by simp
  have "0 \<le> (100 - t) * (100 - of_int r) / 100" using r1 assms by simp
  then have "combine_step t r \<le> 100" using eq2 by linarith
  with ge assms show ?thesis by simp
qed

lemma foldl_combine_bounds:
  assumes "0 \<le> t" "t \<le> 100" "\<forall>r\<in>set rs. 0 \<le> r \<and> r \<le> 100"
  shows "0 \<le> foldl combine_step t rs \<and> foldl combine_step t rs \<le> 100
         \<and> t \<le> foldl combine_step t rs"
  using assms
proof (induction rs arbitrary: t)
  case Nil
  then show ?case by simp
next
  case (Cons r rs)
  from Cons.prems have b: "0 \<le> r" "r \<le> 100" by auto
  from combine_step_bounds[OF Cons.prems(1,2) b]
  have s: "0 \<le> combine_step t r" "combine_step t r \<le> 100" "t \<le> combine_step t r" by auto
  from Cons.prems have "\<forall>r\<in>set rs. 0 \<le> r \<and> r \<le> 100" by simp
  from Cons.IH[OF s(1,2) this] s(3) show ?case by auto
qed

lemma total_rating_combined_of:
  "total_rating (calculate_combined_rating conds pre) = combined_of (map rating (filter tod_found conds))"
  by (auto simp: calculate_combined_rating_def combined_of_def Let_def split: prod.splits)

lemma py_round_range: "0 \<le> x \<Longrightarrow> x \<le> 100 \<Longrightarrow> 0 \<le> py_round x \<and> py_round x \<le> 100"
  using py_round_mono[of 0 x] py_round_mono[of x 100] py_round_of_int[of 0] py_round_of_int[of 100]
  by simp

lemma combined_of_range:
  assumes "\<forall>r\<in>set rs. 0 \<le> r \<and> r \<le> 100"
  shows "0 \<le> combined_of rs \<and> combined_of rs \<le> 100"
proof (cases rs)
  case Nil
  then show ?thesis by (simp add: combined_of_def)
next
  case (Cons r rs')
  with assms have r: "0 \<le> r" "r \<le> 100" and rs': "\<forall>r\<in>set rs'. 0 \<le> r \<and> r \<le> 100" by auto
  have r': "(0::rat) \<le> of_int r" "(of_int r::rat) \<le> 100" using r by auto
  from foldl_combine_bounds[OF r' rs']
  have "0 \<le> foldl combine_step (of_int r) rs'" "foldl combine_step (of_int r) rs' \<le> 100" by auto
  from py_round_range[OF this] r Cons show ?thesis by (simp add: combined_of_def)
qed

lemma combined_of_append:
  assumes "\<forall>r\<in>set rs. 0 \<le> r \<and> r \<le> 100" and "0 \<le> x" "x \<le> 100"
  shows "combined_of rs \<le> combined_of (rs @ [x])"
proof (cases rs)
  case Nil
  then show ?thesis using assms by (simp add: combined_of_def)
next
  case (Cons r rs')
  with assms have r: "0 \<le> r" "r \<le> 100" and rs': "\<forall>r\<in>set rs'. 0 \<le> r \<and> r \<le> 100" by auto
  have r': "(0::rat) \<le> of_int r" "(of_int r::rat) \<le> 100" using r by auto
  let ?c = "foldl combine_step (of_int r) rs'"
  from foldl_combine_bounds[OF r' rs']
  have c: "0 \<le> ?c" "?c \<le> 100" "of_int r \<le> ?c" by auto
  from combine_step_bounds[OF c(1,2) assms(2,3)] have step: "?c \<le> combine_step ?c x" by simp
  have new: "combined_of (rs @ [x]) = min 100 (py_round (combine_step ?c x))"
    using Cons by (simp add: combined_of_def)
  show ?thesis
  proof (cases "rs' = []")
    case True
    then have old: "combined_of rs = min 100 r" using Cons by (simp add: combined_of_def)
    have "r = py_round (of_int r)" by (simp add: py_round_of_int)
    also have "\<dots> \<le> py_round (combine_step ?c x)"
      using py_round_mono[of "of_int r" "combine_step ?c x"] c(3) step by simp
    finally show ?thesis unfolding old new by simp
  next
    case False
    then have old: "combined_of rs = min 100 (py_round ?c)" using Cons by (simp add: combined_of_def)
    from py_round_mono[OF step] show ?thesis unfolding old new by simp
  qed
qed

text \<open>
  C4. When every resolved condition is rated between 0 and 100, the combined rating lies
  between 0 and 100, and appending a resolved condition with a rating above 0 (and at
  most 100) never decreases it.
\<close>

theorem combination_bounded_monotone:
  assumes "\<forall>c\<in>set conds. tod_found c \<longrightarrow> 0 \<le> rating c \<and> rating c \<le> 100"
    and "tod_found a" and "0 < rating a" and "rating a \<le> 100"
  shows "0 \<le> total_rating (calculate_combined_rating conds pre)
       \<and> total_rating (calculate_combined_rating conds pre) \<le> 100
       \<and> total_rating (calculate_combined_rating conds pre)
           \<le> total_rating (calculate_combined_rating (conds @ [a]) pre)"
proof -
  let ?rs = "map rating (filter tod_found conds)"
  have b: "\<forall>r\<in>set ?rs. 0 \<le> r \<and> r \<le> 100" using assms(1) by auto
  have app: "map rating (filter tod_found (conds @ [a])) = ?rs @ [rating a]"
    using assms(2) by simp
  from combined_of_range[OF b] combined_of_append[OF b, of "rating a"] assms(3,4)
  show ?thesis unfolding total_rating_combined_of app by simp
qed

lemma combine_30_50:
  "total_rating (calculate_combined_rating [assessed ''a'' True 30] []) = 30
   \<and> total_rating (calculate_combined_rating ([assessed ''a'' True 30] @ [assessed ''b'' True 50]) [])
       = 65"
  by code_simp

theorem combination_bounded_monotone_witness:
  "0 \<le> total_rating (calculate_combined_rating [assessed ''a'' True 30] [])
   \<and> total_rating (calculate_combined_rating [assessed ''a'' True 30] []) \<le> 100
   \<and> total_rating (calculate_combined_rating [assessed ''a'' True 30] [])
       \<le> total_rating
           (calculate_combined_rating ([assessed ''a'' True 30] @ [assessed ''b'' True 50]) [])
   \<and> total_rating
        (calculate_combined_rating ([assessed ''a'' True 30] @ [assessed ''b'' True 50]) []) = 65"
proof -
  have h1: "\<forall>c\<in>set [assessed ''a'' True 30]. tod_found c \<longrightarrow> 0 \<le> rating c \<and> rating c \<le> 100"
    by (simp add: assessed_def)
  have h2: "tod_found (assessed ''b'' True 50)" "0 < rating (assessed ''b'' True 50)"
    "rating (assessed ''b'' True 50) \<le> 100"
    by (simp_all add: assessed_def)
  from combination_bounded_monotone[OF h1 h2, of "[]"] combine_30_50 show ?thesis by simp
qed

subsection \<open>Raising the inclusion threshold of \<open>search_conditions\<close>\<close>

lemma filter_takeWhile_desc:
  fixes f :: "'a \<Rightarrow> int"
  shows "sorted (map (\<lambda>x. - f x) xs) \<Longrightarrow> filter (\<lambda>x. t < f x) xs = takeWhile (\<lambda>x. t < f x) xs"
proof (induction xs)
  case Nil
  then show ?case by simp
next
  case (Cons x xs)
  then have le: "\<forall>y\<in>set xs. f y \<le> f x" and s: "sorted (map (\<lambda>x. - f x) xs)" by auto
  show ?case
  proof (cases "t < f x")
    case True
    with Cons.IH[OF s] show ?thesis by simp
  next
    case False
    with le have "\<forall>y\<in>set xs. \<not> t < f y" by fastforce
    then have "filter (\<lambda>x. t < f x) xs = []" by (simp add: filter_empty_conv)
    with False show ?thesis by simp
  qed
qed

lemma sort_filter_prefix:
  fixes f :: "'a \<Rightarrow> int"
  assumes "t1 \<le> t2"
  shows "prefix (sort_key (\<lambda>r. - f r) (filter (\<lambda>r. t2 < f r) xs))
                (sort_key (\<lambda>r. - f r) (filter (\<lambda>r. t1 < f r) xs))"
proof -
  let ?k = "\<lambda>r. - f r"
  let ?L = "sort_key ?k (filter (\<lambda>r. t1 < f r) xs)"
  have "filter (\<lambda>r. t2 < f r) (filter (\<lambda>r. t1 < f r) xs) = filter (\<lambda>r. t2 < f r) xs"
    using assms by (auto intro: filter_cong)
  then have "sort_key ?k (filter (\<lambda>r. t2 < f r) xs) = filter (\<lambda>r. t2 < f r) ?L"
    by (simp add: filter_sort)
  also have "\<dots> = takeWhile (\<lambda>r. t2 < f r) ?L"
    by (rule filter_takeWhile_desc) simp
  finally show ?thesis by (simp add: takeWhile_is_prefix)
qed

lemma take_prefix_mono: "m \<le> n \<Longrightarrow> prefix (take m xs) (take n xs)"
proof -
  assume le: "m \<le> n"
  have "prefix (take m (take n xs)) (take n xs)" by (rule take_is_prefix)
  moreover have "take m (take n xs) = take m xs" using le by (simp add: min_absorb1)
  ultimately show ?thesis by (simp only:)
qed

lemma slice_to_prefix:
  assumes "prefix xs ys"
  shows "prefix (slice_to lmt xs) (slice_to lmt ys)"
proof -
  from assms obtain zs where ys: "ys = xs @ zs" by (auto simp: prefix_def)
  show ?thesis
  proof (cases "0 \<le> lmt")
    case True
    then show ?thesis by (simp add: slice_to_def ys take_is_prefix prefix_def)
  next
    case False
    let ?k = "nat (- lmt)"
    have a: "take (length xs - ?k) xs = take (length xs - ?k) ys" by (simp add: ys)
    have "prefix (take (length xs - ?k) ys) (take (length ys - ?k) ys)"
      by (rule take_prefix_mono) (simp add: ys)
    with a False show ?thesis by (simp add: slice_to_def)
  qed
qed

text \<open>
  C9. \<open>search_conditions\<close> is \<open>search_conditions_at\<close> at the threshold 50. For two
  thresholds \<open>t1 \<le> t2\<close> and the same query, chapter filter and limit, the result under
  \<open>t2\<close> is an initial segment of the result under \<open>t1\<close>, so that every condition returned
  under the higher threshold is returned under the lower one.
\<close>

theorem threshold_monotone:
  assumes "t1 \<le> t2"
  shows "prefix (search_conditions_at t2 fz dm q ch lmt) (search_conditions_at t1 fz dm q ch lmt)
       \<and> set (search_conditions_at t2 fz dm q ch lmt) \<subseteq> set (search_conditions_at t1 fz dm q ch lmt)
       \<and> search_conditions fz dm q ch lmt = search_conditions_at 50 fz dm q ch lmt"
proof -
  have p: "prefix (search_conditions_at t2 fz dm q ch lmt) (search_conditions_at t1 fz dm q ch lmt)"
  proof (cases "q = []")
    case True
    then show ?thesis by (simp add: search_conditions_at_def)
  next
    case False
    show ?thesis
      unfolding search_conditions_at_def Let_def
      by (simp only: False if_False) (rule slice_to_prefix[OF sort_filter_prefix[OF assms]])
  qed
  then have "set (search_conditions_at t2 fz dm q ch lmt) \<subseteq> set (search_conditions_at t1 fz dm q ch lmt)"
    by (rule set_mono_prefix)
  with p show ?thesis by (simp add: search_conditions_def)
qed

theorem threshold_monotone_witness:
  "prefix (search_conditions_at 270 length_fuzz example_store ''x'' None 10)
          (search_conditions length_fuzz example_store ''x'' None 10)
   \<and> map (\<lambda>r. c_id (sr_condition r)) (search_conditions_at 270 length_fuzz example_store ''x'' None 10)
       = [''MH-01'']
   \<and> map (\<lambda>r. c_id (sr_condition r)) (search_conditions length_fuzz example_store ''x'' None 10)
       = [''MH-01'', ''MS-02'']"
proof -
  have le: "(50::int) \<le> 270" by simp
  have v: "map (\<lambda>r. c_id (sr_condition r)) (search_conditions_at 270 length_fuzz example_store ''x'' None 10)
       = [''MH-01'']
    \<and> map (\<lambda>r. c_id (sr_condition r)) (search_conditions length_fuzz example_store ''x'' None 10)
       = [''MH-01'', ''MS-02'']"
    by code_simp
  from threshold_monotone[OF le, of length_fuzz example_store "''x''" None 10] v show ?thesis by simp
qed

subsection \<open>Functional limitations\<close>

lemma limitations_for_first: "limitations_for n = first_category n"
  by (simp add: limitations_for_def first_category_def category_table_def)

lemma fold_limitation_step:
  "fold limitation_step conds S
     = S \<union> (\<Union>c\<in>{c \<in> set conds. tod_found c \<and> 50 \<le> rating c}. set (limitations_for (lower (condition c))))"
proof (induction conds arbitrary: S)
  case Nil
  then show ?case by simp
next
  case (Cons c conds)
  show ?case
    unfolding fold_Cons comp_def Cons.IH
    by (auto simp: limitation_step_def)
qed

lemma finite_fold_limitation: "finite (fold limitation_step conds {})"
  unfolding fold_limitation_step by simp

text \<open>
  C10. The list of functional limitations is sorted and free of duplicates, and it holds
  exactly the limitations of the resolved conditions rated 50 or more, each of which
  contributes the limitation set of the first category of the table (mental health, back,
  knee, shoulder, neck) one of whose terms occurs in its lower-cased name, and nothing when
  no category matches.
\<close>

theorem functional_limitations_first_category:
  "sorted (assess_functional_limitations conds)
   \<and> distinct (assess_functional_limitations conds)
   \<and> set (assess_functional_limitations conds)
       = (\<Union>c\<in>{c \<in> set conds. tod_found c \<and> 50 \<le> rating c}.
             set (first_category (lower (condition c))))"
  using finite_fold_limitation[of conds]
  by (simp add: assess_functional_limitations_def fold_limitation_step limitations_for_first)

lemma limitations_value:
  "assess_functional_limitations
     [assessed ''Back and knee pain'' True 60, assessed ''PTSD'' True 40,
      assessed ''Neck strain'' False 90, assessed ''Lumbar spine'' True 50]
   = [''bending'', ''lifting'', ''mobility'', ''prolonged_sitting'']"
  by code_simp

text \<open>
  A name with a back term and a knee term gives the back limitations only; the condition
  rated 40 and the unresolved one give nothing.
\<close>

theorem functional_limitations_first_category_witness:
  "sorted (assess_functional_limitations
     [assessed ''Back and knee pain'' True 60, assessed ''PTSD'' True 40,
      assessed ''Neck strain'' False 90, assessed ''Lumbar spine'' True 50])
   \<and> distinct (assess_functional_limitations
     [assessed ''Back and knee pain'' True 60, assessed ''PTSD'' True 40,
      assessed ''Neck strain'' False 90, assessed ''Lumbar spine'' True 50])
   \<and> assess_functional_limitations
     [assessed ''Back and knee pain'' True 60, assessed ''PTSD'' True 40,
      assessed ''Neck strain'' False 90, assessed ''Lumbar spine'' True 50]
     = [''bending'', ''lifting'', ''mobility'', ''prolonged_sitting'']"
  using functional_limitations_first_category
          [of "[assessed ''Back and knee pain'' True 60, assessed ''PTSD'' True 40,
                assessed ''Neck strain'' False 90, assessed ''Lumbar spine'' True 50]"]
    limitations_value
  by simp

end
